theory Spec2Isabelle
  imports Main
begin

section \<open>Python exceptions\<close>

text \<open>
  The exceptions that the statements of \<^verbatim>\<open>livox_launch.py\<close> can raise.  A computation
  that may raise has a result of type \<open>error + 'a\<close>, with \<open>Inl\<close> for the exception.
  \<open>UnboundLocalError\<close> is the \<open>NameError\<close> raised by reading a local variable that no
  executed statement has bound; \<open>PermissionError\<close> stands for the \<open>OSError\<close>s other than
  \<open>FileNotFoundError\<close>; \<open>UnicodeDecodeError\<close> is kept apart from the \<open>ValueError\<close> it
  derives from, since no handler of the program sees either.
\<close>

datatype error =
    ValueError
  | TypeError
  | KeyError
  | AttributeError
  | OverflowError
  | UnboundLocalError
  | PermissionError
  | UnicodeDecodeError

section \<open>Naive datetimes and timedeltas\<close>

text \<open>
  A naive \<^verbatim>\<open>datetime\<close> is a point of the proleptic Gregorian calendar with microsecond
  resolution, between 0001-01-01 00:00:00 and 9999-12-31 23:59:59.999999.  It is
  modelled by the number of microseconds since 0001-01-01 00:00:00; the fields are read
  off that number, and \<open>mk_datetime\<close> builds it from the day number (Python's
  \<^verbatim>\<open>toordinal()\<close>, 1 for 0001-01-01) and the time fields.  A \<^verbatim>\<open>timedelta\<close> is a signed
  number of microseconds.
\<close>

type_synonym datetime = nat
type_synonym timedelta = int

definition MAXORDINAL :: nat where
  "MAXORDINAL = 3652059"

definition datetime_max :: datetime where
  "datetime_max = MAXORDINAL * 86400000000 - 1"

definition mk_datetime :: "nat \<Rightarrow> nat \<Rightarrow> nat \<Rightarrow> nat \<Rightarrow> nat \<Rightarrow> datetime" where
  "mk_datetime ordinal h m s us =
     ((((ordinal - 1) * 24 + h) * 60 + m) * 60 + s) * 1000000 + us"

definition dt_ordinal :: "datetime \<Rightarrow> nat" where
  "dt_ordinal dt = dt div 86400000000 + 1"

definition dt_hour :: "datetime \<Rightarrow> nat" where
  "dt_hour dt = (dt div 3600000000) mod 24"

definition dt_minute :: "datetime \<Rightarrow> nat" where
  "dt_minute dt = (dt div 60000000) mod 60"

definition dt_second :: "datetime \<Rightarrow> nat" where
  "dt_second dt = (dt div 1000000) mod 60"

definition dt_microsecond :: "datetime \<Rightarrow> nat" where
  "dt_microsecond dt = dt mod 1000000"

definition timedelta_hours :: "int \<Rightarrow> timedelta" where
  "timedelta_hours h = h * 3600000000"

definition timedelta_days :: "int \<Rightarrow> timedelta" where
  "timedelta_days d = d * 86400000000"

definition dt_add :: "datetime \<Rightarrow> timedelta \<Rightarrow> error + datetime" where
  \<comment> \<open>\<^verbatim>\<open>dt + td\<close>: OverflowError when the sum leaves the range of \<^verbatim>\<open>datetime\<close>.\<close>
  "dt_add dt td =
     (let r = int dt + td
      in if r < 0 \<or> int datetime_max < r then Inl OverflowError else Inr (nat r))"

definition dt_sub :: "datetime \<Rightarrow> timedelta \<Rightarrow> error + datetime" where
  \<comment> \<open>\<^verbatim>\<open>dt - td\<close>, which Python computes as \<^verbatim>\<open>dt + (-td)\<close>.\<close>
  "dt_sub dt td = dt_add dt (- td)"

definition dt_diff :: "datetime \<Rightarrow> datetime \<Rightarrow> timedelta" where
  \<comment> \<open>\<^verbatim>\<open>a - b\<close> for two datetimes.\<close>
  "dt_diff a b = int a - int b"

definition dt_replace_min_sec_us :: "datetime \<Rightarrow> nat \<Rightarrow> nat \<Rightarrow> nat \<Rightarrow> datetime" where
  \<comment> \<open>\<^verbatim>\<open>dt.replace(minute=m, second=s, microsecond=us)\<close>: date and hour are kept.\<close>
  "dt_replace_min_sec_us dt m s us = mk_datetime (dt_ordinal dt) (dt_hour dt) m s us"

section \<open>round_to_nearest_hour\<close>

definition round_to_nearest_hour :: "datetime \<Rightarrow> error + datetime" where
  "round_to_nearest_hour dt =
     (case (if dt_minute dt \<ge> 30 then dt_add dt (timedelta_hours 1) else Inr dt) of
        Inl e \<Rightarrow> Inl e
      | Inr dt' \<Rightarrow> Inr (dt_replace_min_sec_us dt' 0 0 0))"

section \<open>The calendar\<close>

text \<open>
  Day numbers follow CPython's \<^verbatim>\<open>datetime\<close> module: \<open>ymd2ord\<close> and \<open>ord2ymd\<close> are its
  \<^verbatim>\<open>_ymd2ord\<close> and \<^verbatim>\<open>_ord2ymd\<close>, and \<open>datetime_new\<close> is the constructor
  \<^verbatim>\<open>datetime(year, month, day, hour, minute, second, microsecond)\<close>, which raises
  ValueError for a field out of range.
\<close>

definition DAYS_IN_MONTH :: "nat list" where
  "DAYS_IN_MONTH = [31, 28, 31, 30, 31, 30, 31, 31, 30, 31, 30, 31]"

definition DAYS_BEFORE_MONTH :: "nat list" where
  \<comment> \<open>the days of a common year before the first of each month\<close>
  "DAYS_BEFORE_MONTH = [0, 31, 59, 90, 120, 151, 181, 212, 243, 273, 304, 334]"

definition is_leap :: "nat \<Rightarrow> bool" where
  "is_leap y = (y mod 4 = 0 \<and> (y mod 100 \<noteq> 0 \<or> y mod 400 = 0))"

definition days_before_year :: "nat \<Rightarrow> nat" where
  "days_before_year year = (let y = year - 1 in y * 365 + y div 4 - y div 100 + y div 400)"

definition days_in_month :: "nat \<Rightarrow> nat \<Rightarrow> nat" where
  "days_in_month year month =
     (if month = 2 \<and> is_leap year then 29 else DAYS_IN_MONTH ! (month - 1))"

definition days_before_month :: "bool \<Rightarrow> nat \<Rightarrow> nat" where
  \<comment> \<open>the first argument says whether the year is a leap year\<close>
  "days_before_month leap month =
     DAYS_BEFORE_MONTH ! (month - 1) + (if month > 2 \<and> leap then 1 else 0)"

definition ymd2ord :: "nat \<Rightarrow> nat \<Rightarrow> nat \<Rightarrow> nat" where
  "ymd2ord year month day =
     days_before_year year + days_before_month (is_leap year) month + day"

definition ord2ymd :: "nat \<Rightarrow> nat \<times> nat \<times> nat" where
  "ord2ymd ordinal =
     (let n = ordinal - 1;
          n400 = n div 146097; n = n mod 146097;
          n100 = n div 36524; n = n mod 36524;
          n4 = n div 1461; n = n mod 1461;
          n1 = n div 365; n = n mod 365;
          year = n400 * 400 + 1 + n100 * 100 + n4 * 4 + n1
      in if n1 = 4 \<or> n100 = 4 then (year - 1, 12, 31)
         else
           (let leapyear = (n1 = 3 \<and> (n4 \<noteq> 24 \<or> n100 = 3));
                month = (n + 50) div 32;
                preceding = days_before_month leapyear month
            in if preceding > n
               then (let month' = month - 1;
                         preceding' = preceding - (DAYS_IN_MONTH ! (month' - 1)
                                        + (if month' = 2 \<and> leapyear then 1 else 0))
                     in (year, month', n - preceding' + 1))
               else (year, month, n - preceding + 1)))"

definition datetime_new ::
  "nat \<Rightarrow> nat \<Rightarrow> nat \<Rightarrow> nat \<Rightarrow> nat \<Rightarrow> nat \<Rightarrow> nat \<Rightarrow> error + datetime" where
  "datetime_new year month day h m s us =
     (if 1 \<le> year \<and> year \<le> 9999 \<and> 1 \<le> month \<and> month \<le> 12
         \<and> 1 \<le> day \<and> day \<le> days_in_month year month
         \<and> h < 24 \<and> m < 60 \<and> s < 60 \<and> us < 1000000
      then Inr (mk_datetime (ymd2ord year month day) h m s us)
      else Inl ValueError)"

section \<open>Text: digits, strftime and strptime\<close>

definition is_digit :: "char \<Rightarrow> bool" where
  "is_digit c = (48 \<le> (of_char c :: nat) \<and> (of_char c :: nat) \<le> 57)"

definition digit_val :: "char \<Rightarrow> nat" where
  "digit_val c = of_char c - 48"

definition digit_char :: "nat \<Rightarrow> char" where
  "digit_char n = ''0123456789'' ! n"

definition is_space :: "char \<Rightarrow> bool" where
  \<comment> \<open>the characters below 256 that the regular expression \<^verbatim>\<open>\s\<close> matches in a \<^verbatim>\<open>str\<close>\<close>
  "is_space c = ((of_char c :: nat) \<in> {9, 10, 11, 12, 13, 28, 29, 30, 31, 32, 133, 160})"

fun str_nat :: "nat \<Rightarrow> string" where
  "str_nat n = (if n < 10 then [digit_char n] else str_nat (n div 10) @ [digit_char (n mod 10)])"

declare str_nat.simps [simp del]

definition str_int :: "int \<Rightarrow> string" where
  \<comment> \<open>\<^verbatim>\<open>str(n)\<close> for an \<^verbatim>\<open>int\<close>\<close>
  "str_int n = (if n < 0 then CHR ''-'' # str_nat (nat (- n)) else str_nat (nat n))"

definition zero_pad :: "nat \<Rightarrow> string \<Rightarrow> string" where
  "zero_pad width s = replicate (width - length s) CHR ''0'' @ s"

definition strftime_Ymd :: "datetime \<Rightarrow> string" where
  \<comment> \<open>\<^verbatim>\<open>dt.strftime('%Y%m%d')\<close> as the C library of the Linux host writes it: month and day
      with two digits, the year without padding (999 for the year 999)\<close>
  "strftime_Ymd dt =
     (case ord2ymd (dt_ordinal dt) of
        (y, m, d) \<Rightarrow> str_nat y @ zero_pad 2 (str_nat m) @ zero_pad 2 (str_nat d))"

text \<open>
  \<^verbatim>\<open>datetime.strptime(s, "%Y-%m-%d %H:%M")\<close>.  CPython turns the format into the regular
  expression
  \<^verbatim>\<open>(?P<Y>\d\d\d\d)-(?P<m>1[0-2]|0[1-9]|[1-9])-(?P<d>3[0-1]|[1-2]\d|0[1-9]|[1-9]| [1-9])\s+(?P<H>2[0-3]|[0-1]\d|\d):(?P<M>[0-5]\d|\d)\<close>,
  matches it at the start of the string, and raises ValueError when there is no match,
  when the match stops before the end of the string, or when the fields are not a date.
  Each piece below returns the ways it can match a prefix, in the order in which the
  backtracking matcher tries them, each with the rest of the string.
\<close>

fun two_digits :: "(nat \<Rightarrow> bool) \<Rightarrow> (nat \<Rightarrow> bool) \<Rightarrow> string \<Rightarrow> (nat \<times> string) list" where
  "two_digits P Q (a # b # rest) =
     (if is_digit a \<and> is_digit b \<and> P (digit_val a) \<and> Q (digit_val b)
      then [(10 * digit_val a + digit_val b, rest)] else [])"
| "two_digits P Q _ = []"

fun one_digit :: "(nat \<Rightarrow> bool) \<Rightarrow> string \<Rightarrow> (nat \<times> string) list" where
  "one_digit P (a # rest) = (if is_digit a \<and> P (digit_val a) then [(digit_val a, rest)] else [])"
| "one_digit P [] = []"

fun re_Y :: "string \<Rightarrow> (nat \<times> string) list" where
  "re_Y (a # b # c # d # rest) =
     (if is_digit a \<and> is_digit b \<and> is_digit c \<and> is_digit d
      then [(1000 * digit_val a + 100 * digit_val b + 10 * digit_val c + digit_val d, rest)]
      else [])"
| "re_Y _ = []"

definition re_m :: "string \<Rightarrow> (nat \<times> string) list" where
  "re_m s = two_digits (\<lambda>a. a = 1) (\<lambda>b. b \<le> 2) s
          @ two_digits (\<lambda>a. a = 0) (\<lambda>b. 1 \<le> b) s
          @ one_digit (\<lambda>a. 1 \<le> a) s"

definition re_d :: "string \<Rightarrow> (nat \<times> string) list" where
  "re_d s = two_digits (\<lambda>a. a = 3) (\<lambda>b. b \<le> 1) s
          @ two_digits (\<lambda>a. 1 \<le> a \<and> a \<le> 2) (\<lambda>b. True) s
          @ two_digits (\<lambda>a. a = 0) (\<lambda>b. 1 \<le> b) s
          @ one_digit (\<lambda>a. 1 \<le> a) s
          @ (case s of [] \<Rightarrow> [] | c # rest \<Rightarrow> if c = CHR '' '' then one_digit (\<lambda>a. 1 \<le> a) rest else [])"

definition re_H :: "string \<Rightarrow> (nat \<times> string) list" where
  "re_H s = two_digits (\<lambda>a. a = 2) (\<lambda>b. b \<le> 3) s
          @ two_digits (\<lambda>a. a \<le> 1) (\<lambda>b. True) s
          @ one_digit (\<lambda>a. True) s"

definition re_M :: "string \<Rightarrow> (nat \<times> string) list" where
  "re_M s = two_digits (\<lambda>a. a \<le> 5) (\<lambda>b. True) s @ one_digit (\<lambda>a. True) s"

definition re_lit :: "char \<Rightarrow> string \<Rightarrow> string list" where
  "re_lit c s = (case s of [] \<Rightarrow> [] | x # rest \<Rightarrow> if x = c then [rest] else [])"

fun re_spaces_star :: "string \<Rightarrow> string list" where
  \<comment> \<open>\<^verbatim>\<open>\s*\<close>, greedy: the longest run first\<close>
  "re_spaces_star [] = [[]]"
| "re_spaces_star (c # rest) = (if is_space c then re_spaces_star rest @ [c # rest] else [c # rest])"

definition re_spaces :: "string \<Rightarrow> string list" where
  \<comment> \<open>\<^verbatim>\<open>\s+\<close>\<close>
  "re_spaces s = (case s of [] \<Rightarrow> [] | c # rest \<Rightarrow> if is_space c then re_spaces_star rest else [])"

definition re_match :: "string \<Rightarrow> ((nat \<times> nat \<times> nat \<times> nat \<times> nat) \<times> string) list" where
  "re_match s =
     [((Y, m, d, H, M), r9).
        (Y, r1) \<leftarrow> re_Y s, r2 \<leftarrow> re_lit CHR ''-'' r1,
        (m, r3) \<leftarrow> re_m r2, r4 \<leftarrow> re_lit CHR ''-'' r3,
        (d, r5) \<leftarrow> re_d r4, r6 \<leftarrow> re_spaces r5,
        (H, r7) \<leftarrow> re_H r6, r8 \<leftarrow> re_lit CHR '':'' r7,
        (M, r9) \<leftarrow> re_M r8]"

definition strptime :: "string \<Rightarrow> error + datetime" where
  "strptime s =
     (case re_match s of
        [] \<Rightarrow> Inl ValueError
      | ((Y, m, d, H, M), rest) # _ \<Rightarrow>
          if rest \<noteq> [] then Inl ValueError else datetime_new Y m d H M 0 0)"

section \<open>JSON and YAML values\<close>

text \<open>
  The Python values that \<^verbatim>\<open>response.json()\<close> and \<^verbatim>\<open>yaml.safe_load\<close> return.  \<open>JNull\<close>
  and \<open>YNull\<close> are Python's \<^verbatim>\<open>None\<close>.  A dict is the list of its items, in insertion
  order, and a key is looked up from the front.  Numbers are integers: no statement of
  the program looks inside a number.
\<close>

datatype json =
    JNull
  | JBool bool
  | JNum int
  | JStr string
  | JArr "json list"
  | JObj "(string \<times> json) list"

datatype yaml =
    YNull
  | YBool bool
  | YInt int
  | YStr string
  | YSeq "yaml list"
  | YMap "(yaml \<times> yaml) list"

definition json_getitem :: "json \<Rightarrow> string \<Rightarrow> error + json" where
  \<comment> \<open>\<^verbatim>\<open>v[key]\<close> for a \<^verbatim>\<open>str\<close> key: KeyError on a dict without the key, TypeError on a
      list, a str, a number, a bool or None\<close>
  "json_getitem v key =
     (case v of
        JObj items \<Rightarrow> (case map_of items key of None \<Rightarrow> Inl KeyError | Some x \<Rightarrow> Inr x)
      | _ \<Rightarrow> Inl TypeError)"

definition json_iter :: "json \<Rightarrow> error + json list" where
  \<comment> \<open>the values that \<^verbatim>\<open>for x in v\<close> binds: the elements of a list, the keys of a dict,
      the characters of a str; TypeError on a number, a bool or None\<close>
  "json_iter v =
     (case v of
        JArr xs \<Rightarrow> Inr xs
      | JObj items \<Rightarrow> Inr (map (\<lambda>(k, _). JStr k) items)
      | JStr s \<Rightarrow> Inr (map (\<lambda>c. JStr [c]) s)
      | _ \<Rightarrow> Inl TypeError)"

definition yaml_getitem :: "yaml \<Rightarrow> yaml \<Rightarrow> error + yaml" where
  \<comment> \<open>\<^verbatim>\<open>v[key]\<close> for a \<^verbatim>\<open>str\<close> key\<close>
  "yaml_getitem v key =
     (case v of
        YMap items \<Rightarrow> (case map_of items key of None \<Rightarrow> Inl KeyError | Some x \<Rightarrow> Inr x)
      | _ \<Rightarrow> Inl TypeError)"

definition yaml_get :: "yaml \<Rightarrow> yaml \<Rightarrow> yaml \<Rightarrow> error + yaml" where
  \<comment> \<open>\<^verbatim>\<open>v.get(key, default)\<close>: only a dict has the method\<close>
  "yaml_get v key dflt =
     (case v of
        YMap items \<Rightarrow> (case map_of items key of None \<Rightarrow> Inr dflt | Some x \<Rightarrow> Inr x)
      | _ \<Rightarrow> Inl AttributeError)"

definition json_get :: "json \<Rightarrow> string \<Rightarrow> json \<Rightarrow> error + json" where
  \<comment> \<open>\<^verbatim>\<open>v.get(key, default)\<close>: only a dict has the method\<close>
  "json_get v key dflt =
     (case v of
        JObj items \<Rightarrow> (case map_of items key of None \<Rightarrow> Inr dflt | Some x \<Rightarrow> Inr x)
      | _ \<Rightarrow> Inl AttributeError)"

section \<open>The world outside the program\<close>

text \<open>
  One run of the script reads a file, reads the clock, sends one HTTP request and may
  start one child process.  A \<open>world\<close> fixes what each of these gives.  The script calls
  \<^verbatim>\<open>datetime.now()\<close> at four places, and every call has a reading of its own.
\<close>

datatype file_outcome =
    FileMissing          \<comment> \<open>\<^verbatim>\<open>open\<close> raises FileNotFoundError\<close>
  | FileUnreadable       \<comment> \<open>\<^verbatim>\<open>open\<close> raises another OSError, such as PermissionError\<close>
  | FileNotText          \<comment> \<open>reading the file raises UnicodeDecodeError: it is not UTF-8 text\<close>
  | FileMalformed        \<comment> \<open>\<^verbatim>\<open>yaml.safe_load\<close> raises YAMLError\<close>
  | FileParsed yaml      \<comment> \<open>\<^verbatim>\<open>yaml.safe_load\<close> returns the value\<close>

datatype http_outcome =
    TransportFailure            \<comment> \<open>\<^verbatim>\<open>requests.get\<close> raises a RequestException\<close>
  | Response nat "json option"  \<comment> \<open>status code, and the body as \<^verbatim>\<open>response.json()\<close> reads it:
                                    \<open>None\<close> when the body is not JSON\<close>

datatype proc_outcome =
    Exited int           \<comment> \<open>the child ran and returned this code\<close>
  | NotFound             \<comment> \<open>\<^verbatim>\<open>subprocess.run\<close> raises FileNotFoundError\<close>
  | NotExecutable        \<comment> \<open>\<^verbatim>\<open>subprocess.run\<close> raises another OSError\<close>

record world =
  read_yaml :: "string \<Rightarrow> file_outcome"
  now_begin :: datetime     \<comment> \<open>\<^verbatim>\<open>datetime.now()\<close> at line 84\<close>
  now_scan :: datetime      \<comment> \<open>at line 18, in \<^verbatim>\<open>find_closest_high_tides\<close>\<close>
  now_select :: datetime    \<comment> \<open>at line 106\<close>
  now_guard :: datetime     \<comment> \<open>at line 131\<close>
  http_get :: "string \<Rightarrow> http_outcome"
  run_process :: "string list \<Rightarrow> proc_outcome"

text \<open>
  What a run does to the outside: the lines it prints, one constructor for each
  \<^verbatim>\<open>print\<close> statement with the values it interpolates (the text of a caught exception is
  left out), and the call of \<^verbatim>\<open>subprocess.run\<close> with its argument list.
\<close>

datatype event =
    Print_file_not_found string
  | Print_yaml_error
  | Print_config_loaded
  | Print_using_defaults
  | Print_fetch_error
  | Print_falling_back
  | Print_closest_past "datetime option"
  | Print_closest_future "datetime option"
  | Print_sampling_time int
  | Print_skipping_launch
  | Print_logger_error
  | Print_logger_not_found
  | Subprocess_run "string list"

section \<open>Constants\<close>

definition NEAREST_COOPS :: string where
  "NEAREST_COOPS = ''9410230''"

definition DEFAULT_SAMP_TIME :: int where
  "DEFAULT_SAMP_TIME = 300"

section \<open>parse_datetime and find_closest_high_tides\<close>

definition parse_datetime :: "json \<Rightarrow> error + datetime" where
  \<comment> \<open>\<^verbatim>\<open>strptime\<close> raises TypeError for an argument that is not a \<^verbatim>\<open>str\<close>\<close>
  "parse_datetime datetime_str =
     (case datetime_str of JStr s \<Rightarrow> strptime s | _ \<Rightarrow> Inl TypeError)"

definition high_tide_step ::
  "datetime \<Rightarrow> datetime option \<times> datetime option \<Rightarrow> json
     \<Rightarrow> error + (datetime option \<times> datetime option)" where
  \<comment> \<open>the body of the loop, lines 23 to 30, on the two variables it assigns\<close>
  "high_tide_step now best prediction =
     (case best of (closest_past_high_tide, closest_future_high_tide) \<Rightarrow>
      (case json_getitem prediction ''t'' of Inl e \<Rightarrow> Inl e | Inr t \<Rightarrow>
       (case parse_datetime t of Inl e \<Rightarrow> Inl e | Inr pred_datetime \<Rightarrow>
        (case json_getitem prediction ''type'' of Inl e \<Rightarrow> Inl e | Inr ty \<Rightarrow>
           if ty = JStr ''H'' then
             if pred_datetime \<le> now then
               (if (case closest_past_high_tide of None \<Rightarrow> True | Some p \<Rightarrow> pred_datetime > p)
                then Inr (Some pred_datetime, closest_future_high_tide)
                else Inr (closest_past_high_tide, closest_future_high_tide))
             else
               (if (case closest_future_high_tide of None \<Rightarrow> True | Some f \<Rightarrow> pred_datetime < f)
                then Inr (closest_past_high_tide, Some pred_datetime)
                else Inr (closest_past_high_tide, closest_future_high_tide))
           else Inr (closest_past_high_tide, closest_future_high_tide)))))"

fun high_tide_loop ::
  "datetime \<Rightarrow> datetime option \<times> datetime option \<Rightarrow> json list
     \<Rightarrow> error + (datetime option \<times> datetime option)" where
  "high_tide_loop now best [] = Inr best"
| "high_tide_loop now best (prediction # predictions) =
     (case high_tide_step now best prediction of
        Inl e \<Rightarrow> Inl e
      | Inr best' \<Rightarrow> high_tide_loop now best' predictions)"

definition find_closest_high_tides ::
  "datetime \<Rightarrow> json \<Rightarrow> error + (datetime option \<times> datetime option)" where
  \<comment> \<open>the first argument is the reading of \<^verbatim>\<open>datetime.now()\<close> at line 18\<close>
  "find_closest_high_tides now predictions =
     (case json_iter predictions of
        Inl e \<Rightarrow> Inl e
      | Inr ps \<Rightarrow> high_tide_loop now (None, None) ps)"

section \<open>get_tide_predictions and load_config\<close>

definition tide_url :: "string \<Rightarrow> string \<Rightarrow> string" where
  "tide_url coops now_str =
     ''https://api.tidesandcurrents.noaa.gov/api/prod/datagetter?''
     @ ''&product=predictions&datum=stnd&interval=hilo&format=json''
     @ ''&units=metric&time_zone=lst_ldt&station='' @ coops
     @ ''&begin_date='' @ now_str @ ''&range=48''"

definition get_tide_predictions :: "world \<Rightarrow> string \<Rightarrow> string \<Rightarrow> event list \<times> (error + json)" where
  \<comment> \<open>\<^verbatim>\<open>raise_for_status\<close> raises HTTPError, a RequestException, for a status from 400 to
      599; \<^verbatim>\<open>response.json()\<close> raises a ValueError for a body that is not JSON; the
      \<^verbatim>\<open>except\<close> clause catches both and no other exception\<close>
  "get_tide_predictions w coops now_str =
     (case http_get w (tide_url coops now_str) of
        TransportFailure \<Rightarrow> ([Print_fetch_error, Print_falling_back], Inr JNull)
      | Response status body \<Rightarrow>
          if 400 \<le> status \<and> status < 600
          then ([Print_fetch_error, Print_falling_back], Inr JNull)
          else (case body of
                  None \<Rightarrow> ([Print_fetch_error, Print_falling_back], Inr JNull)
                | Some j \<Rightarrow> ([], json_get j ''predictions'' (JArr []))))"

definition load_config :: "world \<Rightarrow> string \<Rightarrow> event list \<times> (error + yaml)" where
  "load_config w file_path =
     (case read_yaml w file_path of
        FileParsed config \<Rightarrow> ([], Inr config)
      | FileMissing \<Rightarrow> ([Print_file_not_found file_path], Inr YNull)
      | FileMalformed \<Rightarrow> ([Print_yaml_error], Inr YNull)
      | FileUnreadable \<Rightarrow> ([], Inl PermissionError)
      | FileNotText \<Rightarrow> ([], Inl UnicodeDecodeError))"

section \<open>main\<close>

text \<open>
  \<^verbatim>\<open>main\<close> is split at its blank lines: the choice of the closest high tide (lines 106
  to 117), the choice of the sampling time (lines 119 to 126), both inside the analysis
  of the predictions (lines 97 to 126), and the launch (lines 130 to 145).
\<close>

definition main_closest_high_tide ::
  "datetime \<Rightarrow> datetime option \<Rightarrow> datetime option \<Rightarrow> datetime option" where
  \<comment> \<open>a \<^verbatim>\<open>datetime\<close> is always true in a condition, \<^verbatim>\<open>None\<close> is false\<close>
  "main_closest_high_tide now closest_past_high_tide closest_future_high_tide =
     (case (closest_past_high_tide, closest_future_high_tide) of
        (Some p, Some f) \<Rightarrow> if dt_diff now p \<le> dt_diff f now then Some p else Some f
      | (Some p, None) \<Rightarrow> Some p
      | (None, Some f) \<Rightarrow> Some f
      | (None, None) \<Rightarrow> None)"

definition main_samp_time :: "int \<Rightarrow> datetime \<Rightarrow> datetime option \<Rightarrow> error + int" where
  \<comment> \<open>the chained comparison of line 121 computes its right bound only when the left
      comparison holds\<close>
  "main_samp_time default_samp_time now closest_high_tide =
     (case closest_high_tide of
        None \<Rightarrow> Inr default_samp_time
      | Some tide \<Rightarrow>
         (case round_to_nearest_hour tide of Inl e \<Rightarrow> Inl e | Inr rounded_high_tide \<Rightarrow>
          (case dt_sub rounded_high_tide (timedelta_hours 2) of Inl e \<Rightarrow> Inl e | Inr lo \<Rightarrow>
             if lo \<le> now then
               (case dt_add rounded_high_tide (timedelta_hours 3) of Inl e \<Rightarrow> Inl e | Inr hi \<Rightarrow>
                  if now \<le> hi then Inr (25 * 60) else Inr default_samp_time)
             else Inr default_samp_time)))"

definition main_analysis :: "world \<Rightarrow> int \<Rightarrow> json \<Rightarrow> event list \<times> (error + int)" where
  \<comment> \<open>lines 97 to 126: the value of \<^verbatim>\<open>samp_time\<close>\<close>
  "main_analysis w default_samp_time predictions =
     (if predictions = JNull then ([], Inr default_samp_time)
      else
        (case find_closest_high_tides (now_scan w) predictions of
           Inl e \<Rightarrow> ([], Inl e)
         | Inr (closest_past_high_tide, closest_future_high_tide) \<Rightarrow>
             ([Print_closest_past closest_past_high_tide,
               Print_closest_future closest_future_high_tide],
              main_samp_time default_samp_time (now_select w)
                (main_closest_high_tide (now_select w)
                   closest_past_high_tide closest_future_high_tide))))"

definition logger_argv :: "int \<Rightarrow> string list" where
  "logger_argv samp_time =
     [''/home/cpg/Dev/livox_logger/bin/livox_logger'',
      ''conf/config-'' @ str_int samp_time @ ''.yaml'']"

definition main_launch :: "world \<Rightarrow> int \<Rightarrow> event list \<times> (error + unit)" where
  \<comment> \<open>lines 130 to 145; \<^verbatim>\<open>check=True\<close> raises CalledProcessError for a return code that is
      not zero\<close>
  "main_launch w samp_time =
     (let current_minute = dt_minute (now_guard w)
      in if current_minute = 30 \<and> samp_time \<noteq> 25 * 60
         then ([Print_skipping_launch], Inr ())
         else
           (let argv = logger_argv samp_time
            in case run_process w argv of
                 Exited code \<Rightarrow>
                   if code \<noteq> 0 then ([Subprocess_run argv, Print_logger_error], Inr ())
                   else ([Subprocess_run argv], Inr ())
               | NotFound \<Rightarrow> ([Subprocess_run argv, Print_logger_not_found], Inr ())
               | NotExecutable \<Rightarrow> ([Subprocess_run argv], Inl PermissionError)))"

definition main_from_fetch :: "world \<Rightarrow> int \<Rightarrow> string \<Rightarrow> string \<Rightarrow> event list \<times> (error + unit)" where
  \<comment> \<open>lines 95 to 145, with \<^verbatim>\<open>default_samp_time\<close>, \<^verbatim>\<open>coops\<close> and \<^verbatim>\<open>now_str\<close> bound\<close>
  "main_from_fetch w default_samp_time coops now_str =
     (case get_tide_predictions w coops now_str of
        (out1, Inl e) \<Rightarrow> (out1, Inl e)
      | (out1, Inr predictions) \<Rightarrow>
         (case main_analysis w default_samp_time predictions of
            (out2, Inl e) \<Rightarrow> (out1 @ out2, Inl e)
          | (out2, Inr samp_time) \<Rightarrow>
             (case main_launch w samp_time of
                (out3, r) \<Rightarrow> (out1 @ out2 @ [Print_sampling_time samp_time] @ out3, r))))"

definition main :: "world \<Rightarrow> event list \<times> (error + unit)" where
  \<comment> \<open>The branch for a loaded configuration binds \<^verbatim>\<open>fqdn_ip\<close> and \<^verbatim>\<open>default_samp_time\<close>
      and leaves \<^verbatim>\<open>coops\<close> unbound, so that line 95, which reads \<^verbatim>\<open>coops\<close>, raises
      UnboundLocalError there.\<close>
  "main w =
     (case load_config w ''config.yaml'' of
        (out0, Inl e) \<Rightarrow> (out0, Inl e)
      | (out0, Inr config) \<Rightarrow>
         (case dt_sub (now_begin w) (timedelta_days 1) of
            Inl e \<Rightarrow> (out0, Inl e)
          | Inr yesterday \<Rightarrow>
             (let now_str = strftime_Ymd yesterday
              in if config \<noteq> YNull then
                   (case yaml_getitem config (YStr ''fqdn_ip'') of
                      Inl e \<Rightarrow> (out0 @ [Print_config_loaded], Inl e)
                    | Inr fqdn_ip \<Rightarrow>
                       (case yaml_get config (YStr ''sampling'') (YMap []) of
                          Inl e \<Rightarrow> (out0 @ [Print_config_loaded], Inl e)
                        | Inr sampling \<Rightarrow>
                           (case yaml_get sampling (YStr ''time'') (YInt DEFAULT_SAMP_TIME) of
                              Inl e \<Rightarrow> (out0 @ [Print_config_loaded], Inl e)
                            | Inr default_samp_time \<Rightarrow>
                                (out0 @ [Print_config_loaded], Inl UnboundLocalError))))
                 else
                   (case main_from_fetch w DEFAULT_SAMP_TIME NEAREST_COOPS now_str of
                      (out1, r) \<Rightarrow> (out0 @ [Print_using_defaults] @ out1, r)))))"

section \<open>Vocabulary of the statements\<close>

text \<open>
  A prediction record, as the data model of the specification has it, is a JSON object
  whose \<^verbatim>\<open>t\<close> member parses as a timestamp and which has a \<^verbatim>\<open>type\<close> member.  The
  functions \<open>spec_closest_past\<close> and \<open>spec_closest_future\<close> follow the words of the
  specification: the latest high tide at or before now, the earliest one after now.
\<close>

definition record_time :: "json \<Rightarrow> datetime option" where
  "record_time p =
     (case json_getitem p ''t'' of
        Inl e \<Rightarrow> None
      | Inr t \<Rightarrow> (case parse_datetime t of Inl e \<Rightarrow> None | Inr d \<Rightarrow> Some d))"

definition record_type :: "json \<Rightarrow> json option" where
  "record_type p = (case json_getitem p ''type'' of Inl e \<Rightarrow> None | Inr ty \<Rightarrow> Some ty)"

definition is_record :: "json \<Rightarrow> bool" where
  "is_record p = (record_time p \<noteq> None \<and> record_type p \<noteq> None)"

definition is_high :: "json \<Rightarrow> bool" where
  "is_high p = (record_type p = Some (JStr ''H''))"

definition high_tide_times :: "json list \<Rightarrow> datetime list" where
  "high_tide_times ps = List.map_filter record_time (filter is_high ps)"

definition spec_closest_past :: "datetime \<Rightarrow> datetime list \<Rightarrow> datetime option" where
  "spec_closest_past now ts =
     (let xs = filter (\<lambda>t. t \<le> now) ts in if xs = [] then None else Some (Max (set xs)))"

definition spec_closest_future :: "datetime \<Rightarrow> datetime list \<Rightarrow> datetime option" where
  "spec_closest_future now ts =
     (let xs = filter (\<lambda>t. now < t) ts in if xs = [] then None else Some (Min (set xs)))"

text \<open>
  The next three definitions serve the proofs about the loop: the later and the earlier
  of two optional timestamps, and the invariant that the stored past timestamp is at or
  before now and the stored future one after it.
\<close>

definition join_max :: "nat option \<Rightarrow> nat option \<Rightarrow> nat option" where
  "join_max a b =
     (case a of None \<Rightarrow> b | Some x \<Rightarrow> (case b of None \<Rightarrow> Some x | Some y \<Rightarrow> Some (max x y)))"

definition join_min :: "nat option \<Rightarrow> nat option \<Rightarrow> nat option" where
  "join_min a b =
     (case a of None \<Rightarrow> b | Some x \<Rightarrow> (case b of None \<Rightarrow> Some x | Some y \<Rightarrow> Some (min x y)))"

definition bounded_by :: "datetime \<Rightarrow> datetime option \<times> datetime option \<Rightarrow> bool" where
  "bounded_by now best =
     (case best of (pa, fu) \<Rightarrow>
        (case pa of None \<Rightarrow> True | Some p \<Rightarrow> p \<le> now)
        \<and> (case fu of None \<Rightarrow> True | Some f \<Rightarrow> now < f))"





text \<open>Example inputs: a day of predictions in the format of the tide service, and worlds
  in which the configuration file is missing or holds a given value.\<close>

definition noaa_record :: "string \<Rightarrow> string \<Rightarrow> json" where
  "noaa_record t ty = JObj [(''t'', JStr t), (''v'', JStr ''1.234''), (''type'', JStr ty)]"

definition example_predictions :: json where
  "example_predictions =
     JArr [noaa_record ''2024-04-30 14:22'' ''H'',
           noaa_record ''2024-04-30 20:41'' ''L'',
           noaa_record ''2024-05-01 02:55'' ''H'',
           noaa_record ''2024-05-01 09:05'' ''L'',
           noaa_record ''2024-05-01 14:48'' ''H'',
           noaa_record ''2024-05-01 21:10'' ''L'']"

definition example_world :: "datetime \<Rightarrow> http_outcome \<Rightarrow> world" where
  "example_world now response =
     \<lparr> read_yaml = (\<lambda>path. FileMissing),
       now_begin = now, now_scan = now, now_select = now, now_guard = now,
       http_get = (\<lambda>url. response),
       run_process = (\<lambda>argv. Exited 0) \<rparr>"

definition example_world_with_config :: "yaml \<Rightarrow> datetime \<Rightarrow> http_outcome \<Rightarrow> world" where
  "example_world_with_config config now response =
     (example_world now response) \<lparr> read_yaml := (\<lambda>path. FileParsed config) \<rparr>"

definition example_response :: http_outcome where
  "example_response = Response 200 (Some (JObj [(''predictions'', example_predictions)]))"

definition example_error_response :: http_outcome where
  "example_error_response =
     Response 200 (Some (JObj [(''error'',
        JObj [(''message'', JStr ''No Predictions data was found'')])]))"

definition example_config :: yaml where
  "example_config =
     YMap [(YStr ''fqdn_ip'', YStr ''192.168.1.10''),
           (YStr ''sampling'', YMap [(YStr ''time'', YInt 600)])]"

section \<open>Properties of the datetime model\<close>

lemma dt_replace_zero_eq:
  "dt_replace_min_sec_us dt 0 0 0 = dt - dt mod 3600000000"
proof -
  have "dt div 86400000000 * 24 + dt div 3600000000 mod 24 = dt div 3600000000"
  proof -
    have "dt div 86400000000 = dt div 3600000000 div 24"
      by (simp add: div_mult2_eq)
    then show ?thesis by simp
  qed
  then have "dt_replace_min_sec_us dt 0 0 0 = dt div 3600000000 * 3600000000"
    by (simp add: dt_replace_min_sec_us_def mk_datetime_def dt_ordinal_def dt_hour_def)
  also have "\<dots> = dt - dt mod 3600000000"
    by (simp add: minus_mod_eq_div_mult)
  finally show ?thesis .
qed

lemma hour_floor_eq: "dt - dt mod 3600000000 = dt div 3600000000 * (3600000000::nat)"
  by (simp add: minus_mod_eq_div_mult)

lemma floor_minute: "dt_minute (dt - dt mod 3600000000) = 0"
proof -
  have "(dt div 3600000000 * 3600000000) div 60000000 = dt div 3600000000 * (60::nat)"
    by simp
  then show ?thesis
    by (simp add: dt_minute_def hour_floor_eq)
qed

lemma floor_second: "dt_second (dt - dt mod 3600000000) = 0"
proof -
  have "(dt div 3600000000 * 3600000000) div 1000000 = dt div 3600000000 * (3600::nat)"
    by simp
  then show ?thesis
    by (simp add: dt_second_def hour_floor_eq)
qed

lemma floor_microsecond: "dt_microsecond (dt - dt mod 3600000000) = 0"
  by (simp add: dt_microsecond_def hour_floor_eq)

lemma floor_mod: "(dt - dt mod 3600000000) mod 3600000000 = (0::nat)"
  by (simp add: hour_floor_eq)

lemma hour_split: "dt div 3600000000 = dt div 86400000000 * 24 + dt_hour dt"
proof -
  have "dt div 86400000000 = dt div 3600000000 div 24"
    by (simp add: div_mult2_eq)
  then show ?thesis by (simp add: dt_hour_def)
qed

lemma floor_as_fields:
  "dt - dt mod 3600000000 = mk_datetime (dt_ordinal dt) (dt_hour dt) 0 0 0"
  using dt_replace_zero_eq [of dt] by (simp add: dt_replace_min_sec_us_def)

lemma add_hour_div: "(dt + 3600000000) div 3600000000 = dt div 3600000000 + (1::nat)"
  by simp

lemma round_to_nearest_hour_cases:
  "round_to_nearest_hour dt =
     (if 30 \<le> dt_minute dt
      then (if dt + 3600000000 \<le> datetime_max
            then Inr (dt + 3600000000 - (dt + 3600000000) mod 3600000000)
            else Inl OverflowError)
      else Inr (dt - dt mod 3600000000))"
  by (simp add: round_to_nearest_hour_def dt_add_def timedelta_hours_def Let_def
      dt_replace_zero_eq nat_add_distrib)

lemma round_to_nearest_hour_result:
  assumes "round_to_nearest_hour dt = Inr r"
  shows "r mod 3600000000 = 0" and "dt_minute r = 0" and "dt_second r = 0"
    and "dt_microsecond r = 0"
proof -
  have "r = dt - dt mod 3600000000
      \<or> r = dt + 3600000000 - (dt + 3600000000) mod 3600000000"
    using assms by (simp only: round_to_nearest_hour_cases split: if_splits) auto
  then obtain x where r: "r = x - x mod 3600000000"
    by blast
  show "r mod 3600000000 = 0" by (simp only: r floor_mod)
  show "dt_minute r = 0" by (simp only: r floor_minute)
  show "dt_second r = 0" by (simp only: r floor_second)
  show "dt_microsecond r = 0" by (simp only: r floor_microsecond)
qed

lemma hour14_no_overflow:
  assumes "dt \<le> datetime_max" and "dt_hour dt = 14"
  shows "dt + 3600000000 \<le> datetime_max"
proof -
  let ?q = "dt div 3600000000"
  have "dt < 87649416 * 3600000000"
    using assms(1) by (simp add: datetime_max_def MAXORDINAL_def)
  then have q: "?q < 87649416"
    by (simp add: div_less_iff_less_mult)
  have "?q \<noteq> 87649415"
    using assms(2) by (auto simp: dt_hour_def)
  with q have "?q + 1 < 87649416" by linarith
  then have "(dt + 3600000000) div 3600000000 < 87649416"
    by (simp only: add_hour_div)
  then have "dt + 3600000000 < 87649416 * 3600000000"
    by (simp only: div_less_iff_less_mult [of "3600000000::nat", simplified])
  then show ?thesis
    by (simp add: datetime_max_def MAXORDINAL_def)
qed

section \<open>Rounding to the nearest hour\<close>

text \<open>
  C5 (amended).  For every datetime \<open>dt\<close> whose minute is below 30, or for which one hour
  later is still a datetime (that is, before 9999-12-31 23:00), \<open>round_to_nearest_hour\<close>
  returns \<open>dt\<close>, moved one hour forward when its minute is at least 30, with minute,
  second and microsecond set to zero.  In particular 14:29 on any day rounds to 14:00 of
  that day, and 14:30 rounds to 15:00 of that day.
\<close>

theorem round_to_nearest_hour_in_range:
  assumes "dt \<le> datetime_max"
  shows "(dt_minute dt < 30 \<or> dt + 3600000000 \<le> datetime_max \<longrightarrow>
            (\<exists>r. round_to_nearest_hour dt = Inr r
               \<and> r = dt_replace_min_sec_us
                       (if 30 \<le> dt_minute dt then dt + 3600000000 else dt) 0 0 0
               \<and> dt_minute r = 0 \<and> dt_second r = 0 \<and> dt_microsecond r = 0))
       \<and> (dt_hour dt = 14 \<and> dt_minute dt = 29 \<longrightarrow>
            round_to_nearest_hour dt = Inr (mk_datetime (dt_ordinal dt) 14 0 0 0))
       \<and> (dt_hour dt = 14 \<and> dt_minute dt = 30 \<longrightarrow>
            round_to_nearest_hour dt = Inr (mk_datetime (dt_ordinal dt) 15 0 0 0))"
proof (intro conjI impI)
  assume ok: "dt_minute dt < 30 \<or> dt + 3600000000 \<le> datetime_max"
  let ?d = "if 30 \<le> dt_minute dt then dt + 3600000000 else dt"
  have eq: "round_to_nearest_hour dt = Inr (?d - ?d mod 3600000000)"
    using ok by (auto simp: round_to_nearest_hour_cases)
  moreover have "?d - ?d mod 3600000000 = dt_replace_min_sec_us ?d 0 0 0"
    by (simp only: dt_replace_zero_eq)
  moreover note round_to_nearest_hour_result(2-4) [OF eq]
  ultimately show "\<exists>r. round_to_nearest_hour dt = Inr r
      \<and> r = dt_replace_min_sec_us ?d 0 0 0
      \<and> dt_minute r = 0 \<and> dt_second r = 0 \<and> dt_microsecond r = 0"
    by metis
next
  assume "dt_hour dt = 14 \<and> dt_minute dt = 29"
  then show "round_to_nearest_hour dt = Inr (mk_datetime (dt_ordinal dt) 14 0 0 0)"
    using floor_as_fields [of dt] by (simp add: round_to_nearest_hour_cases)
next
  assume h: "dt_hour dt = 14 \<and> dt_minute dt = 30"
  let ?d = "dt + 3600000000"
  have fit: "?d \<le> datetime_max"
    using hour14_no_overflow [OF assms] h by simp
  have "?d div 3600000000 = dt div 86400000000 * 24 + 15"
    using hour_split [of dt] h by simp
  then have "?d - ?d mod 3600000000 = (dt div 86400000000 * 24 + 15) * 3600000000"
    by (simp only: hour_floor_eq)
  also have "\<dots> = mk_datetime (dt_ordinal dt) 15 0 0 0"
    by (simp add: mk_datetime_def dt_ordinal_def)
  finally have "?d - ?d mod 3600000000 = mk_datetime (dt_ordinal dt) 15 0 0 0" .
  then show "round_to_nearest_hour dt = Inr (mk_datetime (dt_ordinal dt) 15 0 0 0)"
    using fit h by (simp add: round_to_nearest_hour_cases)
qed

theorem round_to_nearest_hour_in_range_witness:
  "round_to_nearest_hour (mk_datetime 739007 14 29 0 0) = Inr (mk_datetime 739007 14 0 0 0)
   \<and> round_to_nearest_hour (mk_datetime 739007 14 30 0 0) = Inr (mk_datetime 739007 15 0 0 0)"
  using round_to_nearest_hour_in_range [of "mk_datetime 739007 14 29 0 0"]
    round_to_nearest_hour_in_range [of "mk_datetime 739007 14 30 0 0"]
  by (simp add: mk_datetime_def dt_hour_def dt_minute_def dt_ordinal_def datetime_max_def
      MAXORDINAL_def dt_replace_min_sec_us_def)

text \<open>
  C5 as stated fails at 9999-12-31 23:30, a datetime whose minute is 30: adding one hour
  leaves the range of \<^verbatim>\<open>datetime\<close>, and the function raises OverflowError instead of
  returning a rounded value.
\<close>

theorem round_to_nearest_hour_overflow:
  "mk_datetime 3652059 23 30 0 0 \<le> datetime_max
   \<and> dt_minute (mk_datetime 3652059 23 30 0 0) = 30
   \<and> round_to_nearest_hour (mk_datetime 3652059 23 30 0 0) = Inl OverflowError"
  by (simp add: round_to_nearest_hour_cases mk_datetime_def dt_minute_def datetime_max_def
      MAXORDINAL_def)

text \<open>
  C9.  Rounding twice is rounding once: whatever \<open>round_to_nearest_hour dt\<close> returns,
  applying the function to that value returns it again (and when the first call raises,
  so does the composition); a returned value has minute, second and microsecond zero.
\<close>

theorem round_to_nearest_hour_idempotent:
  "(case round_to_nearest_hour dt of Inl e \<Rightarrow> Inl e | Inr r \<Rightarrow> round_to_nearest_hour r)
     = round_to_nearest_hour dt
   \<and> (\<forall>r. round_to_nearest_hour dt = Inr r \<longrightarrow>
         dt_minute r = 0 \<and> dt_second r = 0 \<and> dt_microsecond r = 0)"
proof
  show "(case round_to_nearest_hour dt of Inl e \<Rightarrow> Inl e | Inr r \<Rightarrow> round_to_nearest_hour r)
          = round_to_nearest_hour dt"
  proof (cases "round_to_nearest_hour dt")
    case (Inl e)
    then show ?thesis by simp
  next
    case (Inr r)
    from round_to_nearest_hour_result(1,2) [OF Inr]
    have "round_to_nearest_hour r = Inr r"
      by (simp add: round_to_nearest_hour_cases)
    with Inr show ?thesis by simp
  qed
next
  show "\<forall>r. round_to_nearest_hour dt = Inr r \<longrightarrow>
         dt_minute r = 0 \<and> dt_second r = 0 \<and> dt_microsecond r = 0"
    using round_to_nearest_hour_result(2-4) by blast
qed

theorem round_to_nearest_hour_idempotent_witness:
  "round_to_nearest_hour (mk_datetime 739007 14 45 30 5) = Inr (mk_datetime 739007 15 0 0 0)
   \<and> round_to_nearest_hour (mk_datetime 739007 15 0 0 0) = Inr (mk_datetime 739007 15 0 0 0)
   \<and> dt_minute (mk_datetime 739007 15 0 0 0) = 0"
proof -
  have r: "round_to_nearest_hour (mk_datetime 739007 14 45 30 5)
             = Inr (mk_datetime 739007 15 0 0 0)"
    by (simp add: round_to_nearest_hour_cases mk_datetime_def dt_minute_def datetime_max_def
        MAXORDINAL_def)
  from round_to_nearest_hour_idempotent [of "mk_datetime 739007 14 45 30 5"] r
  show ?thesis by simp
qed

section \<open>The analyzer\<close>

lemma join_max_assoc: "join_max (join_max a b) c = join_max a (join_max b c)"
  by (auto simp: join_max_def split: option.splits)

lemma join_min_assoc: "join_min (join_min a b) c = join_min a (join_min b c)"
  by (auto simp: join_min_def split: option.splits)

lemma Max_set_Cons:
  "Max (set (d # xs)) = (if xs = [] then d else max d (Max (set xs)))"
  by simp

lemma Min_set_Cons:
  "Min (set (d # xs)) = (if xs = [] then d else min d (Min (set xs)))"
  by simp

lemma spec_closest_past_Cons:
  "spec_closest_past now (d # ts)
     = join_max (if d \<le> now then Some d else None) (spec_closest_past now ts)"
proof (cases "d \<le> now")
  case True
  then have "filter (\<lambda>t. t \<le> now) (d # ts) = d # filter (\<lambda>t. t \<le> now) ts"
    by simp
  then show ?thesis
    using True
    by (simp only: spec_closest_past_def Let_def Max_set_Cons join_max_def)
      (simp del: set_filter)
next
  case False
  then show ?thesis
    by (simp add: spec_closest_past_def join_max_def)
qed

lemma spec_closest_future_Cons:
  "spec_closest_future now (d # ts)
     = join_min (if now < d then Some d else None) (spec_closest_future now ts)"
proof (cases "now < d")
  case True
  then have "filter (\<lambda>t. now < t) (d # ts) = d # filter (\<lambda>t. now < t) ts"
    by simp
  then show ?thesis
    using True
    by (simp only: spec_closest_future_def Let_def Min_set_Cons join_min_def)
      (simp del: set_filter)
next
  case False
  then show ?thesis
    by (simp add: spec_closest_future_def join_min_def)
qed

lemma high_tide_step_record:
  assumes "record_time p = Some d" and "record_type p = Some ty"
  shows "high_tide_step now (pa, fu) p =
           Inr (if ty = JStr ''H''
                then (join_max pa (if d \<le> now then Some d else None),
                      join_min fu (if now < d then Some d else None))
                else (pa, fu))"
  using assms
  by (auto simp: high_tide_step_def record_time_def record_type_def join_max_def join_min_def
      split: sum.splits option.splits)

lemma high_tide_times_Cons:
  "high_tide_times (p # ps) =
     (if is_high p then (case record_time p of None \<Rightarrow> high_tide_times ps
                         | Some d \<Rightarrow> d # high_tide_times ps)
      else high_tide_times ps)"
  by (simp add: high_tide_times_def split: option.splits)

lemma high_tide_loop_records:
  assumes "list_all is_record ps"
  shows "high_tide_loop now (pa, fu) ps =
           Inr (join_max pa (spec_closest_past now (high_tide_times ps)),
                join_min fu (spec_closest_future now (high_tide_times ps)))"
  using assms
proof (induction ps arbitrary: pa fu)
  case Nil
  then show ?case
    by (simp add: high_tide_times_def spec_closest_past_def
        spec_closest_future_def join_max_def join_min_def split: option.splits)
next
  case (Cons p ps)
  then obtain d ty where d: "record_time p = Some d" and ty: "record_type p = Some ty"
    by (auto simp: is_record_def)
  from Cons.prems have rest: "list_all is_record ps" by simp
  show ?case
  proof (cases "ty = JStr ''H''")
    case True
    then have "is_high p" using ty by (simp add: is_high_def)
    then have times: "high_tide_times (p # ps) = d # high_tide_times ps"
      using d by (simp add: high_tide_times_Cons)
    show ?thesis
      using True
      by (simp add: high_tide_step_record [OF d ty] Cons.IH [OF rest] times
          spec_closest_past_Cons spec_closest_future_Cons join_max_assoc join_min_assoc)
  next
    case False
    then have "\<not> is_high p" using ty by (simp add: is_high_def)
    then have times: "high_tide_times (p # ps) = high_tide_times ps"
      by (simp add: high_tide_times_Cons)
    show ?thesis
      using False
      by (simp add: high_tide_step_record [OF d ty] Cons.IH [OF rest] times)
  qed
qed

lemma find_closest_high_tides_records:
  assumes "list_all is_record ps"
  shows "find_closest_high_tides now (JArr ps) =
           Inr (spec_closest_past now (high_tide_times ps),
                spec_closest_future now (high_tide_times ps))"
  by (simp add: find_closest_high_tides_def json_iter_def high_tide_loop_records [OF assms]
      join_max_def join_min_def)

lemma high_tide_times_filter: "high_tide_times (filter is_high ps) = high_tide_times ps"
  by (simp add: high_tide_times_def)

lemma spec_closest_past_at_now:
  assumes "now \<in> set ts"
  shows "spec_closest_past now ts = Some now"
proof -
  define xs where "xs = filter (\<lambda>t. t \<le> now) ts"
  have mem: "now \<in> set xs" using assms by (simp add: xs_def)
  then have ne: "xs \<noteq> []" by (cases xs) simp_all
  have "Max (set xs) = now"
  proof (rule Max_eqI)
    show "finite (set xs)" by (rule finite_set)
    show "y \<le> now" if "y \<in> set xs" for y using that by (simp add: xs_def)
    show "now \<in> set xs" by (rule mem)
  qed
  with ne have "(if xs = [] then None else Some (Max (set xs))) = Some now"
    by simp
  then show ?thesis
    by (simp only: spec_closest_past_def Let_def xs_def)
qed

lemma high_tide_step_Inr:
  assumes "high_tide_step now best p = Inr best'"
  shows "\<exists>d ty. record_time p = Some d \<and> record_type p = Some ty"
proof -
  obtain t where t: "json_getitem p ''t'' = Inr t"
    using assms by (cases "json_getitem p ''t''") (auto simp: high_tide_step_def split: prod.splits)
  obtain d where d: "parse_datetime t = Inr d"
    using assms t
    by (cases "parse_datetime t") (auto simp: high_tide_step_def split: prod.splits)
  obtain ty where ty: "json_getitem p ''type'' = Inr ty"
    using assms t d
    by (cases "json_getitem p ''type''") (auto simp: high_tide_step_def split: prod.splits)
  show ?thesis
    by (simp add: record_time_def record_type_def t d ty)
qed

lemma high_tide_step_bounded:
  assumes "high_tide_step now best p = Inr best'" and "bounded_by now best"
  shows "bounded_by now best'"
proof -
  obtain pa fu where best: "best = (pa, fu)" by (cases best)
  from high_tide_step_Inr [OF assms(1)]
  obtain d ty where d: "record_time p = Some d" and ty: "record_type p = Some ty"
    by blast
  have "best' = (if ty = JStr ''H''
                 then (join_max pa (if d \<le> now then Some d else None),
                       join_min fu (if now < d then Some d else None))
                 else (pa, fu))"
    using assms(1) unfolding best high_tide_step_record [OF d ty] by simp
  then show ?thesis
    using assms(2) unfolding best
    by (cases pa; cases fu) (simp_all add: bounded_by_def join_max_def join_min_def)
qed

lemma high_tide_loop_bounded:
  assumes "high_tide_loop now best ps = Inr best'" and "bounded_by now best"
  shows "bounded_by now best'"
  using assms
proof (induction ps arbitrary: best)
  case Nil
  then show ?case by simp
next
  case (Cons p ps)
  from Cons.prems(1) obtain b where step: "high_tide_step now best p = Inr b"
    and loop: "high_tide_loop now b ps = Inr best'"
    by (cases "high_tide_step now best p") simp_all
  from high_tide_step_bounded [OF step Cons.prems(2)] have "bounded_by now b" .
  from Cons.IH [OF loop this] show ?case .
qed

lemma find_closest_high_tides_bounded:
  assumes "find_closest_high_tides now predictions = Inr (past, future)"
  shows "bounded_by now (past, future)"
proof -
  from assms obtain ps where "high_tide_loop now (None, None) ps = Inr (past, future)"
    by (auto simp: find_closest_high_tides_def split: sum.splits)
  moreover have "bounded_by now (None, None)" by (simp add: bounded_by_def)
  ultimately show ?thesis by (rule high_tide_loop_bounded)
qed

section \<open>The example inputs, evaluated\<close>

lemmas eval_calendar = ymd2ord_def days_before_year_def days_before_month_def is_leap_def
  DAYS_IN_MONTH_def DAYS_BEFORE_MONTH_def days_in_month_def datetime_new_def mk_datetime_def

lemmas eval_strptime = strptime_def re_match_def re_m_def re_d_def re_H_def re_M_def
  re_lit_def re_spaces_def is_digit_def digit_val_def is_space_def

lemmas eval_record = record_time_def record_type_def is_record_def is_high_def noaa_record_def
  json_getitem_def parse_datetime_def

lemma example_record_times:
  "record_time (noaa_record ''2024-04-30 14:22'' ty) = Some (mk_datetime 739006 14 22 0 0)"
  "record_time (noaa_record ''2024-04-30 20:41'' ty) = Some (mk_datetime 739006 20 41 0 0)"
  "record_time (noaa_record ''2024-05-01 02:55'' ty) = Some (mk_datetime 739007 2 55 0 0)"
  "record_time (noaa_record ''2024-05-01 09:05'' ty) = Some (mk_datetime 739007 9 5 0 0)"
  "record_time (noaa_record ''2024-05-01 14:48'' ty) = Some (mk_datetime 739007 14 48 0 0)"
  "record_time (noaa_record ''2024-05-01 21:10'' ty) = Some (mk_datetime 739007 21 10 0 0)"
  by (simp_all add: eval_record eval_strptime eval_calendar)

lemma example_record_type: "record_type (noaa_record t ty) = Some (JStr ty)"
  by (simp add: eval_record)

lemma example_records:
  "list_all is_record
     [noaa_record ''2024-04-30 14:22'' ''H'', noaa_record ''2024-04-30 20:41'' ''L'',
      noaa_record ''2024-05-01 02:55'' ''H'', noaa_record ''2024-05-01 09:05'' ''L'',
      noaa_record ''2024-05-01 14:48'' ''H'', noaa_record ''2024-05-01 21:10'' ''L'']"
  by (simp add: is_record_def example_record_times example_record_type)

lemma example_high_tide_times:
  "high_tide_times
     [noaa_record ''2024-04-30 14:22'' ''H'', noaa_record ''2024-04-30 20:41'' ''L'',
      noaa_record ''2024-05-01 02:55'' ''H'', noaa_record ''2024-05-01 09:05'' ''L'',
      noaa_record ''2024-05-01 14:48'' ''H'', noaa_record ''2024-05-01 21:10'' ''L'']
   = [mk_datetime 739006 14 22 0 0, mk_datetime 739007 2 55 0 0, mk_datetime 739007 14 48 0 0]"
  by (simp add: high_tide_times_def is_high_def example_record_times example_record_type)

lemma example_analysis:
  "find_closest_high_tides now example_predictions =
     Inr (spec_closest_past now
            [mk_datetime 739006 14 22 0 0, mk_datetime 739007 2 55 0 0,
             mk_datetime 739007 14 48 0 0],
          spec_closest_future now
            [mk_datetime 739006 14 22 0 0, mk_datetime 739007 2 55 0 0,
             mk_datetime 739007 14 48 0 0])"
  using find_closest_high_tides_records [OF example_records, of now]
  by (simp add: example_predictions_def example_high_tide_times)

lemma example_predictions_not_null: "example_predictions \<noteq> JNull"
  by (simp add: example_predictions_def)

lemmas eval_main = main_def load_config_def example_world_def example_response_def
  dt_sub_def dt_add_def timedelta_days_def timedelta_hours_def Let_def datetime_max_def
  MAXORDINAL_def main_from_fetch_def get_tide_predictions_def json_get_def main_analysis_def
  example_analysis example_predictions_not_null spec_closest_past_def spec_closest_future_def
  main_closest_high_tide_def dt_diff_def main_samp_time_def round_to_nearest_hour_cases
  dt_minute_def main_launch_def logger_argv_def str_int_def str_nat.simps digit_char_def
  mk_datetime_def DEFAULT_SAMP_TIME_def

lemma example_run_13_05:
  "main (example_world (mk_datetime 739007 13 5 10 250) example_response) =
     ([Print_file_not_found ''config.yaml'', Print_using_defaults,
       Print_closest_past (Some (mk_datetime 739007 2 55 0 0)),
       Print_closest_future (Some (mk_datetime 739007 14 48 0 0)),
       Print_sampling_time 1500,
       Subprocess_run [''/home/cpg/Dev/livox_logger/bin/livox_logger'',
                       ''conf/config-1500.yaml'']],
      Inr ())"
  by (simp add: eval_main)

lemma example_run_10_59:
  "main (example_world (mk_datetime 739007 10 59 0 0) example_response) =
     ([Print_file_not_found ''config.yaml'', Print_using_defaults,
       Print_closest_past (Some (mk_datetime 739007 2 55 0 0)),
       Print_closest_future (Some (mk_datetime 739007 14 48 0 0)),
       Print_sampling_time 300,
       Subprocess_run [''/home/cpg/Dev/livox_logger/bin/livox_logger'',
                       ''conf/config-300.yaml'']],
      Inr ())"
  by (simp add: eval_main)

lemma example_run_13_30:
  "main (example_world (mk_datetime 739007 13 30 0 0) example_response) =
     ([Print_file_not_found ''config.yaml'', Print_using_defaults,
       Print_closest_past (Some (mk_datetime 739007 2 55 0 0)),
       Print_closest_future (Some (mk_datetime 739007 14 48 0 0)),
       Print_sampling_time 1500,
       Subprocess_run [''/home/cpg/Dev/livox_logger/bin/livox_logger'',
                       ''conf/config-1500.yaml'']],
      Inr ())"
  by (simp add: eval_main)

lemma example_run_10_30:
  "main (example_world (mk_datetime 739007 10 30 0 0) example_response) =
     ([Print_file_not_found ''config.yaml'', Print_using_defaults,
       Print_closest_past (Some (mk_datetime 739007 2 55 0 0)),
       Print_closest_future (Some (mk_datetime 739007 14 48 0 0)),
       Print_sampling_time 300,
       Print_skipping_launch],
      Inr ())"
  by (simp add: eval_main)


section \<open>Closest high tides\<close>

text \<open>
  C2.  On every list of prediction records and every reference instant, the analyzer
  returns the latest high-tide timestamp that is at or before now and the earliest one
  after now, each absent when there is none.  A high tide exactly at now is the closest
  past one.  Records that are not of type H do not change the result.  The loop replaces
  a stored timestamp only by a strictly better one, so a record that repeats the stored
  timestamp leaves it as it was.
\<close>

theorem find_closest_high_tides_spec:
  assumes "list_all is_record ps"
  shows "find_closest_high_tides now (JArr ps) =
           Inr (spec_closest_past now (high_tide_times ps),
                spec_closest_future now (high_tide_times ps))
       \<and> (now \<in> set (high_tide_times ps) \<longrightarrow>
            find_closest_high_tides now (JArr ps) =
              Inr (Some now, spec_closest_future now (high_tide_times ps)))
       \<and> find_closest_high_tides now (JArr (filter is_high ps)) =
           find_closest_high_tides now (JArr ps)
       \<and> (is_high p \<and> record_time p = Some d \<and> d \<le> now \<longrightarrow>
            high_tide_step now (Some q, fu) p = Inr (Some (if q < d then d else q), fu))
       \<and> (is_high p \<and> record_time p = Some d \<and> now < d \<longrightarrow>
            high_tide_step now (pa, Some q) p = Inr (pa, Some (if d < q then d else q)))"
proof (intro conjI impI)
  show main: "find_closest_high_tides now (JArr ps) =
           Inr (spec_closest_past now (high_tide_times ps),
                spec_closest_future now (high_tide_times ps))"
    by (rule find_closest_high_tides_records [OF assms])
  show "find_closest_high_tides now (JArr ps) =
          Inr (Some now, spec_closest_future now (high_tide_times ps))"
    if "now \<in> set (high_tide_times ps)"
    using main spec_closest_past_at_now [OF that] by simp
  have "list_all is_record (filter is_high ps)"
    using assms by (simp add: list_all_iff)
  from find_closest_high_tides_records [OF this]
  show "find_closest_high_tides now (JArr (filter is_high ps)) =
          find_closest_high_tides now (JArr ps)"
    by (simp add: main high_tide_times_filter)
  show "high_tide_step now (Some q, fu) p = Inr (Some (if q < d then d else q), fu)"
    if "is_high p \<and> record_time p = Some d \<and> d \<le> now"
    using that high_tide_step_record [of p d "JStr ''H''" now "Some q" fu]
    by (auto simp: is_high_def join_max_def join_min_def split: option.splits)
  show "high_tide_step now (pa, Some q) p = Inr (pa, Some (if d < q then d else q))"
    if "is_high p \<and> record_time p = Some d \<and> now < d"
    using that high_tide_step_record [of p d "JStr ''H''" now pa "Some q"]
    by (auto simp: is_high_def join_min_def join_max_def split: option.splits)
qed

theorem find_closest_high_tides_spec_witness:
  "find_closest_high_tides (mk_datetime 739007 13 5 10 250) example_predictions
     = Inr (Some (mk_datetime 739007 2 55 0 0), Some (mk_datetime 739007 14 48 0 0))
   \<and> find_closest_high_tides (mk_datetime 739007 14 48 0 0) example_predictions
     = Inr (Some (mk_datetime 739007 14 48 0 0), None)"
  using find_closest_high_tides_spec [OF example_records, of "mk_datetime 739007 13 5 10 250",
      THEN conjunct1]
    find_closest_high_tides_spec [OF example_records, of "mk_datetime 739007 14 48 0 0",
      THEN conjunct1]
  by (simp add: example_predictions_def example_high_tide_times spec_closest_past_def
      spec_closest_future_def mk_datetime_def)

text \<open>
  C3.  For the two candidates that the analyzer returns, the chosen high tide is the one
  with the smaller absolute difference from now, the past one when the differences are
  equal; a single candidate is chosen, and without candidates none is.  A past tide 90
  minutes before and a future tide 60 minutes after give the future tide.
\<close>

theorem closest_high_tide_choice:
  assumes "find_closest_high_tides scan predictions = Inr (past, future)"
  shows "main_closest_high_tide now past future =
           (case (past, future) of
              (Some p, Some f) \<Rightarrow> Some (if \<bar>dt_diff now p\<bar> \<le> \<bar>dt_diff f now\<bar> then p else f)
            | (Some p, None) \<Rightarrow> Some p
            | (None, Some f) \<Rightarrow> Some f
            | (None, None) \<Rightarrow> None)
       \<and> (dt_diff t p = 90 * 60000000 \<and> dt_diff f t = 60 * 60000000 \<longrightarrow>
            main_closest_high_tide t (Some p) (Some f) = Some f)"
proof (intro conjI impI)
  from find_closest_high_tides_bounded [OF assms]
  show "main_closest_high_tide now past future =
           (case (past, future) of
              (Some p, Some f) \<Rightarrow> Some (if \<bar>dt_diff now p\<bar> \<le> \<bar>dt_diff f now\<bar> then p else f)
            | (Some p, None) \<Rightarrow> Some p
            | (None, Some f) \<Rightarrow> Some f
            | (None, None) \<Rightarrow> None)"
    by (auto simp: main_closest_high_tide_def bounded_by_def dt_diff_def split: option.splits)
  show "main_closest_high_tide t (Some p) (Some f) = Some f"
    if "dt_diff t p = 90 * 60000000 \<and> dt_diff f t = 60 * 60000000"
    using that by (simp add: main_closest_high_tide_def)
qed

theorem closest_high_tide_choice_witness:
  "main_closest_high_tide (mk_datetime 739007 13 5 10 250)
      (Some (mk_datetime 739007 2 55 0 0)) (Some (mk_datetime 739007 14 48 0 0))
     = Some (mk_datetime 739007 14 48 0 0)
   \<and> main_closest_high_tide (mk_datetime 739007 13 0 0 0)
      (Some (mk_datetime 739007 11 30 0 0)) (Some (mk_datetime 739007 14 0 0 0))
     = Some (mk_datetime 739007 14 0 0 0)"
proof
  have f: "find_closest_high_tides (mk_datetime 739007 13 5 10 250) example_predictions
      = Inr (Some (mk_datetime 739007 2 55 0 0), Some (mk_datetime 739007 14 48 0 0))"
    by (simp add: example_analysis spec_closest_past_def spec_closest_future_def
        mk_datetime_def)
  from closest_high_tide_choice [OF f, where now = "mk_datetime 739007 13 5 10 250",
      THEN conjunct1]
  show "main_closest_high_tide (mk_datetime 739007 13 5 10 250)
      (Some (mk_datetime 739007 2 55 0 0)) (Some (mk_datetime 739007 14 48 0 0))
     = Some (mk_datetime 739007 14 48 0 0)"
    by (simp add: dt_diff_def mk_datetime_def)
  from closest_high_tide_choice [OF f, where t = "mk_datetime 739007 13 0 0 0"
      and p = "mk_datetime 739007 11 30 0 0" and f = "mk_datetime 739007 14 0 0 0",
      THEN conjunct2]
  show "main_closest_high_tide (mk_datetime 739007 13 0 0 0)
      (Some (mk_datetime 739007 11 30 0 0)) (Some (mk_datetime 739007 14 0 0 0))
     = Some (mk_datetime 739007 14 0 0 0)"
    by (simp add: dt_diff_def mk_datetime_def)
qed

text \<open>
  C8.  On a list of prediction records that all have type L the analyzer returns no
  past and no future high tide, no closest high tide is chosen, and the sampling time is
  the default.
\<close>

theorem only_low_tides_default:
  assumes "list_all is_record ps"
    and "list_all (\<lambda>p. record_type p = Some (JStr ''L'')) ps"
  shows "find_closest_high_tides now (JArr ps) = Inr (None, None)
       \<and> main_closest_high_tide now' None None = None
       \<and> main_analysis w default_samp_time (JArr ps) =
           ([Print_closest_past None, Print_closest_future None], Inr default_samp_time)"
proof -
  have "filter is_high ps = []"
    using assms(2) by (auto simp: list_all_iff is_high_def filter_empty_conv)
  then have "high_tide_times ps = []"
    by (simp add: high_tide_times_def)
  then have r: "\<And>t. find_closest_high_tides t (JArr ps) = Inr (None, None)"
    using find_closest_high_tides_records [OF assms(1)]
    by (simp add: spec_closest_past_def spec_closest_future_def)
  show ?thesis
    by (simp add: r main_analysis_def main_closest_high_tide_def main_samp_time_def)
qed

theorem only_low_tides_default_witness:
  "find_closest_high_tides (mk_datetime 739007 13 5 10 250)
      (JArr [noaa_record ''2024-04-30 20:41'' ''L'', noaa_record ''2024-05-01 09:05'' ''L''])
     = Inr (None, None)
   \<and> main_analysis (example_world (mk_datetime 739007 13 5 10 250) example_response) 300
      (JArr [noaa_record ''2024-04-30 20:41'' ''L'', noaa_record ''2024-05-01 09:05'' ''L''])
     = ([Print_closest_past None, Print_closest_future None], Inr 300)"
proof -
  let ?ps = "[noaa_record ''2024-04-30 20:41'' ''L'', noaa_record ''2024-05-01 09:05'' ''L'']"
  have r: "list_all is_record ?ps"
    by (simp add: is_record_def example_record_times example_record_type)
  have l: "list_all (\<lambda>p. record_type p = Some (JStr ''L'')) ?ps"
    by (simp add: example_record_type)
  from only_low_tides_default [OF r l, where now = "mk_datetime 739007 13 5 10 250"
      and w = "example_world (mk_datetime 739007 13 5 10 250) example_response"
      and default_samp_time = 300]
  show ?thesis by simp
qed

section \<open>The sampling time and the launch\<close>

lemma load_config_trace:
  assumes "e \<in> set (fst (load_config w p))"
  shows "e = Print_file_not_found p \<or> e = Print_yaml_error"
  using assms by (cases "read_yaml w p") (simp_all add: load_config_def)

lemma get_tide_predictions_trace:
  assumes "e \<in> set (fst (get_tide_predictions w c n))"
  shows "e = Print_fetch_error \<or> e = Print_falling_back"
  using assms
  by (auto simp: get_tide_predictions_def split: http_outcome.splits if_splits option.splits)

lemma main_analysis_trace:
  assumes "e \<in> set (fst (main_analysis w d predictions))"
  shows "(\<exists>a. e = Print_closest_past a) \<or> (\<exists>b. e = Print_closest_future b)"
  using assms
  by (auto simp: main_analysis_def split: if_splits sum.splits prod.splits)

lemma main_launch_trace:
  assumes "e \<in> set (fst (main_launch w s))"
  shows "e = Print_skipping_launch \<or> e = Subprocess_run (logger_argv s)
       \<or> e = Print_logger_error \<or> e = Print_logger_not_found"
  using assms
  by (cases "run_process w (logger_argv s)")
    (auto simp: main_launch_def Let_def split: if_splits)

lemma main_launch_skip:
  assumes "dt_minute (now_guard w) = 30 \<and> s \<noteq> 25 * 60"
  shows "main_launch w s = ([Print_skipping_launch], Inr ())"
  using assms by (simp add: main_launch_def)

lemma main_launch_run:
  assumes "\<not> (dt_minute (now_guard w) = 30 \<and> s \<noteq> 25 * 60)"
  shows "\<exists>rest. fst (main_launch w s) = Subprocess_run (logger_argv s) # rest"
  using assms
  by (cases "run_process w (logger_argv s)") (auto simp: main_launch_def Let_def)

lemma main_launch_subprocess:
  "(\<exists>argv. Subprocess_run argv \<in> set (fst (main_launch w s)))
     \<longleftrightarrow> \<not> (dt_minute (now_guard w) = 30 \<and> s \<noteq> 25 * 60)"
proof (cases "dt_minute (now_guard w) = 30 \<and> s \<noteq> 25 * 60")
  case True
  then show ?thesis by (simp add: main_launch_skip)
next
  case False
  from main_launch_run [OF False] obtain rest
    where "fst (main_launch w s) = Subprocess_run (logger_argv s) # rest" ..
  then show ?thesis using False by auto
qed

lemma main_from_fetch_reaches:
  assumes "Print_sampling_time s \<in> set (fst (main_from_fetch w d c n))"
  shows "\<exists>out1 predictions out2.
           get_tide_predictions w c n = (out1, Inr predictions)
         \<and> main_analysis w d predictions = (out2, Inr s)
         \<and> main_from_fetch w d c n =
             (out1 @ out2 @ [Print_sampling_time s] @ fst (main_launch w s),
              snd (main_launch w s))
         \<and> (\<forall>argv. Subprocess_run argv \<notin> set (out1 @ out2))"
proof -
  obtain out1 r1 where g: "get_tide_predictions w c n = (out1, r1)"
    by (cases "get_tide_predictions w c n")
  have t1: "Print_sampling_time s \<notin> set out1" "\<And>argv. Subprocess_run argv \<notin> set out1"
    using get_tide_predictions_trace [of _ w c n] g by auto
  show ?thesis
  proof (cases r1)
    case (Inl e)
    then show ?thesis using assms g t1 by (simp add: main_from_fetch_def)
  next
    case (Inr predictions)
    obtain out2 r2 where a: "main_analysis w d predictions = (out2, r2)"
      by (cases "main_analysis w d predictions")
    have t2: "Print_sampling_time s \<notin> set out2" "\<And>argv. Subprocess_run argv \<notin> set out2"
      using main_analysis_trace [of _ w d predictions] a by auto
    show ?thesis
    proof (cases r2)
      case (Inl e)
      then show ?thesis using assms g Inr a t1 t2 by (simp add: main_from_fetch_def)
    next
      case r2: (Inr s')
      obtain out3 r3 where l: "main_launch w s' = (out3, r3)"
        by (cases "main_launch w s'")
      have "Print_sampling_time s \<notin> set out3"
        using main_launch_trace [of _ w s'] l by auto
      then have "s' = s"
        using assms g Inr a r2 l t1 t2 by (simp add: main_from_fetch_def)
      then show ?thesis
        using g Inr a r2 l t1 t2 by (simp add: main_from_fetch_def)
    qed
  qed
qed

lemma main_config_loaded:
  assumes "load_config w ''config.yaml'' = (out0, Inr config)" and "config \<noteq> YNull"
    and "dt_sub (now_begin w) (timedelta_days 1) = Inr yesterday"
  shows "\<exists>e. main w = (out0 @ [Print_config_loaded], Inl e)"
proof (cases "yaml_getitem config (YStr ''fqdn_ip'')")
  case (Inl e)
  then show ?thesis using assms by (simp add: main_def)
next
  case fq: (Inr fqdn_ip)
  show ?thesis
  proof (cases "yaml_get config (YStr ''sampling'') (YMap [])")
    case (Inl e)
    then show ?thesis using assms fq by (simp add: main_def)
  next
    case sa: (Inr sampling)
    show ?thesis
      using assms fq sa
      by (cases "yaml_get sampling (YStr ''time'') (YInt DEFAULT_SAMP_TIME)")
        (simp_all add: main_def)
  qed
qed

lemma main_defaults:
  assumes "load_config w ''config.yaml'' = (out0, Inr YNull)"
    and "dt_sub (now_begin w) (timedelta_days 1) = Inr yesterday"
  shows "main w =
           (out0 @ [Print_using_defaults]
              @ fst (main_from_fetch w DEFAULT_SAMP_TIME NEAREST_COOPS (strftime_Ymd yesterday)),
            snd (main_from_fetch w DEFAULT_SAMP_TIME NEAREST_COOPS (strftime_Ymd yesterday)))"
  using assms by (simp add: main_def split: prod.splits)

lemma main_reaches:
  assumes "Print_sampling_time s \<in> set (fst (main w))"
  shows "\<exists>pre yesterday out1 predictions out2.
           dt_sub (now_begin w) (timedelta_days 1) = Inr yesterday
         \<and> get_tide_predictions w NEAREST_COOPS (strftime_Ymd yesterday) = (out1, Inr predictions)
         \<and> main_analysis w DEFAULT_SAMP_TIME predictions = (out2, Inr s)
         \<and> main w = (pre @ [Print_sampling_time s] @ fst (main_launch w s),
                      snd (main_launch w s))
         \<and> (\<forall>argv. Subprocess_run argv \<notin> set pre)
         \<and> Print_skipping_launch \<notin> set pre"
proof -
  obtain out0 r0 where lc: "load_config w ''config.yaml'' = (out0, r0)"
    by (cases "load_config w ''config.yaml''")
  have t0: "Print_sampling_time s \<notin> set out0" "\<And>argv. Subprocess_run argv \<notin> set out0"
    "Print_skipping_launch \<notin> set out0"
    using load_config_trace [of _ w "''config.yaml''"] lc by auto
  show ?thesis
  proof (cases r0)
    case (Inl e)
    then show ?thesis using assms lc t0 by (simp add: main_def)
  next
    case (Inr config)
    show ?thesis
    proof (cases "dt_sub (now_begin w) (timedelta_days 1)")
      case (Inl e)
      then show ?thesis using assms lc Inr t0 by (simp add: main_def)
    next
      case y: (Inr yesterday)
      show ?thesis
      proof (cases "config = YNull")
        case False
        from main_config_loaded [OF lc [unfolded Inr] False y]
        show ?thesis using assms t0 by auto
      next
        case True
        let ?f = "main_from_fetch w DEFAULT_SAMP_TIME NEAREST_COOPS (strftime_Ymd yesterday)"
        have m: "main w = (out0 @ [Print_using_defaults] @ fst ?f, snd ?f)"
          using main_defaults lc Inr True y by simp
        then have "Print_sampling_time s \<in> set (fst ?f)"
          using assms t0 by simp
        from main_from_fetch_reaches [OF this]
        obtain out1 predictions out2 where
          g: "get_tide_predictions w NEAREST_COOPS (strftime_Ymd yesterday)
                = (out1, Inr predictions)"
          and a: "main_analysis w DEFAULT_SAMP_TIME predictions = (out2, Inr s)"
          and f: "?f = (out1 @ out2 @ [Print_sampling_time s] @ fst (main_launch w s),
                        snd (main_launch w s))"
          and n: "\<forall>argv. Subprocess_run argv \<notin> set (out1 @ out2)"
          by blast
        have k: "Print_skipping_launch \<notin> set (out1 @ out2)"
          using get_tide_predictions_trace [of _ w NEAREST_COOPS "strftime_Ymd yesterday"]
            main_analysis_trace [of _ w DEFAULT_SAMP_TIME predictions] g a
          by auto
        let ?pre = "out0 @ [Print_using_defaults] @ out1 @ out2"
        have "main w = (?pre @ [Print_sampling_time s] @ fst (main_launch w s),
                        snd (main_launch w s))"
          using m f by simp
        moreover have "\<forall>argv. Subprocess_run argv \<notin> set ?pre"
          using t0 n by simp
        moreover have "Print_skipping_launch \<notin> set ?pre"
          using t0 k by simp
        ultimately show ?thesis using y g a by blast
      qed
    qed
  qed
qed




























text \<open>
  The guard of lines 130 to 136, in the runs that reach it: the logger is started unless
  the minute read at line 131 is 30 and the sampling time is not 1500, and then the run
  prints that it skips the launch and returns.
\<close>

lemma half_hour_guard:
  assumes "Print_sampling_time s \<in> set (fst (main w))"
  shows "((\<exists>argv. Subprocess_run argv \<in> set (fst (main w)))
            \<longleftrightarrow> \<not> (dt_minute (now_guard w) = 30 \<and> s \<noteq> 1500))
       \<and> (dt_minute (now_guard w) = 30 \<and> s \<noteq> 1500 \<longrightarrow>
            snd (main w) = Inr () \<and> Print_skipping_launch \<in> set (fst (main w)))"
proof -
  from main_reaches [OF assms]
  obtain pre where
    m: "main w = (pre @ [Print_sampling_time s] @ fst (main_launch w s),
                      snd (main_launch w s))"
    and n: "\<forall>argv. Subprocess_run argv \<notin> set pre"
    by blast
  have "(\<exists>argv. Subprocess_run argv \<in> set (fst (main w)))
          \<longleftrightarrow> (\<exists>argv. Subprocess_run argv \<in> set (fst (main_launch w s)))"
    using m n by auto
  then have c1: "(\<exists>argv. Subprocess_run argv \<in> set (fst (main w)))
            \<longleftrightarrow> \<not> (dt_minute (now_guard w) = 30 \<and> s \<noteq> 1500)"
    using main_launch_subprocess [of w s] by simp
  have c2: "snd (main w) = Inr () \<and> Print_skipping_launch \<in> set (fst (main w))"
    if "dt_minute (now_guard w) = 30 \<and> s \<noteq> 1500"
    using m main_launch_skip [of w s] that by simp
  from c1 c2 show ?thesis by blast
qed

lemma main_config_loaded_no_launch:
  assumes "read_yaml w ''config.yaml'' = FileParsed config" and "config \<noteq> YNull"
  shows "Subprocess_run argv \<notin> set (fst (main w))"
proof -
  have lc: "load_config w ''config.yaml'' = ([], Inr config)"
    using assms(1) by (simp add: load_config_def)
  show ?thesis
  proof (cases "dt_sub (now_begin w) (timedelta_days 1)")
    case (Inl e)
    then show ?thesis using lc by (simp add: main_def)
  next
    case (Inr yesterday)
    from main_config_loaded [OF lc assms(2) Inr] show ?thesis by auto
  qed
qed

text \<open>
  C6.  The claim fails on the runs that load a configuration file.  Such a run raises
  UnboundLocalError at line 95, before any mode is selected, and starts no child at any
  minute: here at minute 5, where the same instant without a configuration file does
  start the logger (lemma \<open>main_config_loaded_no_launch\<close> for every such run).
\<close>

theorem no_launch_with_config:
  "dt_minute (mk_datetime 739007 13 5 10 250) = 5
   \<and> main (example_world_with_config example_config (mk_datetime 739007 13 5 10 250)
             example_response)
       = ([Print_config_loaded], Inl UnboundLocalError)
   \<and> \<not> (\<exists>argv. Subprocess_run argv
           \<in> set (fst (main (example_world_with_config example_config
                               (mk_datetime 739007 13 5 10 250) example_response))))
   \<and> (\<exists>argv. Subprocess_run argv
           \<in> set (fst (main (example_world (mk_datetime 739007 13 5 10 250)
                               example_response))))"
proof -
  have m: "main (example_world_with_config example_config (mk_datetime 739007 13 5 10 250)
             example_response)
       = ([Print_config_loaded], Inl UnboundLocalError)"
    by (simp add: main_def load_config_def example_world_with_config_def example_world_def
        example_config_def dt_sub_def dt_add_def timedelta_days_def Let_def datetime_max_def
        MAXORDINAL_def mk_datetime_def yaml_getitem_def yaml_get_def)
  have "dt_minute (mk_datetime 739007 13 5 10 250) = 5"
    by (simp add: dt_minute_def mk_datetime_def)
  then show ?thesis
    by (simp add: m example_run_13_05)
qed

section \<open>The tide client\<close>

lemma get_tide_predictions_contract:
  "get_tide_predictions w coops now_str =
     (case http_get w (tide_url coops now_str) of
        TransportFailure \<Rightarrow> ([Print_fetch_error, Print_falling_back], Inr JNull)
      | Response status body \<Rightarrow>
          if 400 \<le> status \<and> status < 600
          then ([Print_fetch_error, Print_falling_back], Inr JNull)
          else (case body of
                  None \<Rightarrow> ([Print_fetch_error, Print_falling_back], Inr JNull)
                | Some (JObj items) \<Rightarrow>
                    ([], Inr (case map_of items ''predictions'' of
                                None \<Rightarrow> JArr [] | Some v \<Rightarrow> v))
                | Some _ \<Rightarrow> ([], Inl AttributeError)))"
  by (cases "http_get w (tide_url coops now_str)")
    (auto simp: get_tide_predictions_def json_get_def split: option.splits json.splits)

text \<open>
  C7.  The claim fails where the body of the response is JSON but not an object: a
  list has no \<^verbatim>\<open>get\<close> method, the AttributeError is not among the exceptions that the
  \<^verbatim>\<open>except\<close> clause catches, and it leaves \<^verbatim>\<open>get_tide_predictions\<close> and then \<^verbatim>\<open>main\<close>.
  The lemma \<open>get_tide_predictions_contract\<close> above gives the result in every case.
\<close>

theorem tide_client_raises:
  "get_tide_predictions (example_world now (Response 200 (Some (JArr [])))) coops now_str
     = ([], Inl AttributeError)
   \<and> main (example_world (mk_datetime 739007 13 5 10 250) (Response 200 (Some (JArr []))))
     = ([Print_file_not_found ''config.yaml'', Print_using_defaults], Inl AttributeError)"
  by (simp add: main_def load_config_def example_world_def dt_sub_def dt_add_def
      timedelta_days_def Let_def datetime_max_def MAXORDINAL_def mk_datetime_def
      main_from_fetch_def get_tide_predictions_def json_get_def)

text \<open>
  C10.  When the request returns a status outside 400 to 599 and a JSON object without
  the member \<^verbatim>\<open>predictions\<close>, the client returns the empty list and prints nothing.  The
  caller then analyses the empty list, finds no candidate, prints both as absent and
  selects the default sampling time, without the message of the fallback.
\<close>

theorem missing_predictions_key:
  assumes "http_get w (tide_url coops now_str) = Response status (Some (JObj items))"
    and "\<not> (400 \<le> status \<and> status < 600)"
    and "map_of items ''predictions'' = None"
  shows "get_tide_predictions w coops now_str = ([], Inr (JArr []))
       \<and> main_analysis w default_samp_time (JArr []) =
           ([Print_closest_past None, Print_closest_future None], Inr default_samp_time)
       \<and> main_from_fetch w default_samp_time coops now_str =
           ([Print_closest_past None, Print_closest_future None,
             Print_sampling_time default_samp_time] @ fst (main_launch w default_samp_time),
            snd (main_launch w default_samp_time))"
proof -
  have g: "get_tide_predictions w coops now_str = ([], Inr (JArr []))"
    using assms by (simp add: get_tide_predictions_contract)
  have a: "main_analysis w default_samp_time (JArr []) =
           ([Print_closest_past None, Print_closest_future None], Inr default_samp_time)"
    by (simp add: main_analysis_def find_closest_high_tides_def json_iter_def
        main_closest_high_tide_def main_samp_time_def)
  show ?thesis
    by (simp add: g a main_from_fetch_def split: prod.splits)
qed

theorem missing_predictions_key_witness:
  "main (example_world (mk_datetime 739007 13 5 10 250) example_error_response) =
     ([Print_file_not_found ''config.yaml'', Print_using_defaults,
       Print_closest_past None, Print_closest_future None, Print_sampling_time 300,
       Subprocess_run [''/home/cpg/Dev/livox_logger/bin/livox_logger'',
                       ''conf/config-300.yaml'']],
      Inr ())"
proof -
  let ?w = "example_world (mk_datetime 739007 13 5 10 250) example_error_response"
  have h: "http_get ?w (tide_url NEAREST_COOPS now_str) =
             Response 200 (Some (JObj [(''error'',
                JObj [(''message'', JStr ''No Predictions data was found'')])]))" for now_str
    by (simp add: example_world_def example_error_response_def)
  have l: "main_launch ?w 300 =
      ([Subprocess_run [''/home/cpg/Dev/livox_logger/bin/livox_logger'',
                        ''conf/config-300.yaml'']], Inr ())"
    by (simp add: main_launch_def example_world_def dt_minute_def mk_datetime_def
        logger_argv_def str_int_def str_nat.simps digit_char_def)
  have p2: "\<not> (400 \<le> (200::nat) \<and> (200::nat) < 600)" by simp
  have p3: "map_of [(''error'',
      JObj [(''message'', JStr ''No Predictions data was found'')])] ''predictions'' = None"
    by simp
  from missing_predictions_key [OF h p2 p3, where default_samp_time = 300,
      THEN conjunct2, THEN conjunct2]
  have "main_from_fetch ?w 300 NEAREST_COOPS now_str =
      ([Print_closest_past None, Print_closest_future None, Print_sampling_time 300,
        Subprocess_run [''/home/cpg/Dev/livox_logger/bin/livox_logger'',
                        ''conf/config-300.yaml'']], Inr ())" for now_str
    by (simp add: l)
  then show ?thesis
    by (simp add: main_def load_config_def example_world_def dt_sub_def dt_add_def
        timedelta_days_def Let_def datetime_max_def MAXORDINAL_def mk_datetime_def
        DEFAULT_SAMP_TIME_def)
qed

section \<open>How a run ends\<close>

lemma main_config_loaded_raises:
  assumes "read_yaml w ''config.yaml'' = FileParsed config" and "config \<noteq> YNull"
  shows "\<exists>e. snd (main w) = Inl e"
proof -
  have lc: "load_config w ''config.yaml'' = ([], Inr config)"
    using assms(1) by (simp add: load_config_def)
  show ?thesis
  proof (cases "dt_sub (now_begin w) (timedelta_days 1)")
    case (Inl e)
    then show ?thesis using lc by (simp add: main_def)
  next
    case (Inr yesterday)
    from main_config_loaded [OF lc assms(2) Inr] show ?thesis by auto
  qed
qed

text \<open>
  C1.  The claim fails.  With a configuration file that loads, \<^verbatim>\<open>main\<close> never binds
  \<^verbatim>\<open>coops\<close>, and the request of line 95 raises UnboundLocalError (lemma
  \<open>main_config_loaded_raises\<close>: every run with a loaded configuration ends in an
  exception).  Without a configuration file, a prediction whose \<^verbatim>\<open>t\<close> is not in the
  format raises ValueError in \<^verbatim>\<open>parse_datetime\<close>, which nothing catches.
\<close>

theorem main_raises:
  "main (example_world_with_config example_config (mk_datetime 739007 13 5 10 250)
           example_response)
     = ([Print_config_loaded], Inl UnboundLocalError)
   \<and> main (example_world (mk_datetime 739007 13 5 10 250)
             (Response 200 (Some (JObj [(''predictions'',
                JArr [noaa_record ''2024-05-01T14:48'' ''H''])]))))
     = ([Print_file_not_found ''config.yaml'', Print_using_defaults], Inl ValueError)"
proof
  show "main (example_world_with_config example_config (mk_datetime 739007 13 5 10 250)
           example_response)
     = ([Print_config_loaded], Inl UnboundLocalError)"
    by (simp add: main_def load_config_def example_world_with_config_def example_world_def
        example_config_def dt_sub_def dt_add_def timedelta_days_def Let_def datetime_max_def
        MAXORDINAL_def mk_datetime_def yaml_getitem_def yaml_get_def)
  have "record_time (noaa_record ''2024-05-01T14:48'' ''H'') = None"
    by (simp add: eval_record eval_strptime)
  then have "find_closest_high_tides now (JArr [noaa_record ''2024-05-01T14:48'' ''H''])
      = Inl ValueError" for now
    by (simp add: find_closest_high_tides_def json_iter_def high_tide_step_def eval_record
        eval_strptime)
  then show "main (example_world (mk_datetime 739007 13 5 10 250)
             (Response 200 (Some (JObj [(''predictions'',
                JArr [noaa_record ''2024-05-01T14:48'' ''H''])]))))
     = ([Print_file_not_found ''config.yaml'', Print_using_defaults], Inl ValueError)"
    by (simp add: main_def load_config_def example_world_def dt_sub_def dt_add_def
        timedelta_days_def Let_def datetime_max_def MAXORDINAL_def mk_datetime_def
        main_from_fetch_def get_tide_predictions_def json_get_def main_analysis_def)
qed

end
